theory Spec2Isabelle
  imports Complex_Main
begin

section \<open>The posterior object of \<open>sbi/inference/posteriors/snpe_posterior.py\<close>\<close>

text \<open>
  The development embeds the class \<open>SnpePosterior\<close>: the sampling-mode setter
  \<open>set_sample_with_mcmc\<close>, the masked log-probability \<open>_log_prob_snpe\<close>, the cached
  \<open>leakage_correction\<close> and the dispatcher \<open>sample\<close>. The trained network, the prior,
  the rejection sampler of \<open>sbi.utils\<close>, the chain runner and the context checks of the
  base class \<open>NeuralPosterior\<close> are collaborators whose code is not part of the file;
  they enter as the fields of a record of functions, so every theorem holds for any
  behaviour of theirs unless a hypothesis says otherwise.
\<close>

subsection \<open>Exceptions\<close>

datatype error =
    ValueError string
  | RuntimeError string
  | TypeError string
  | OtherError string

subsection \<open>Scalars of a float tensor\<close>

text \<open>
  An entry of a float tensor is a finite number, one of the two infinities or NaN.
  Finite arithmetic is exact real arithmetic (rounding is left out); what the
  functions below fix is the IEEE treatment of the special values, which is all the
  masking of \<open>_log_prob_snpe\<close> depends on.
\<close>

datatype fl = NaN | NInf | Fin real | PInf

fun torch_isfinite :: "fl \<Rightarrow> bool" where
  "torch_isfinite (Fin r) = True"
| "torch_isfinite NaN = False"
| "torch_isfinite NInf = False"
| "torch_isfinite PInf = False"

fun torch_log :: "fl \<Rightarrow> fl" where
  "torch_log NaN = NaN"
| "torch_log NInf = NaN"
| "torch_log PInf = PInf"
| "torch_log (Fin r) = (if r < 0 then NaN else if r = 0 then NInf else Fin (ln r))"

fun torch_sub :: "fl \<Rightarrow> fl \<Rightarrow> fl" where
  "torch_sub NaN b = NaN"
| "torch_sub NInf NaN = NaN"
| "torch_sub NInf NInf = NaN"
| "torch_sub NInf (Fin b) = NInf"
| "torch_sub NInf PInf = NInf"
| "torch_sub PInf NaN = NaN"
| "torch_sub PInf NInf = PInf"
| "torch_sub PInf (Fin b) = PInf"
| "torch_sub PInf PInf = NaN"
| "torch_sub (Fin a) NaN = NaN"
| "torch_sub (Fin a) NInf = PInf"
| "torch_sub (Fin a) (Fin b) = Fin (a - b)"
| "torch_sub (Fin a) PInf = NInf"

text \<open>
  \<open>torch.where(cond, a, scalar)\<close> on one-dimensional tensors: entry by entry when the
  two lengths agree, a length-one operand is broadcast, and any other pair of lengths
  raises.
\<close>

definition torch_where :: "bool list \<Rightarrow> fl list \<Rightarrow> fl \<Rightarrow> error + fl list" where
  "torch_where cond a other =
     (if length cond = length a then
        Inr (map (\<lambda>(c, v). if c then v else other) (zip cond a))
      else if length cond = 1 then
        Inr (map (\<lambda>v. if hd cond then v else other) a)
      else if length a = 1 then
        Inr (map (\<lambda>c. if c then hd a else other) cond)
      else Inl (RuntimeError ''The size of tensor a must match the size of tensor b''))"

subsection \<open>Tensors of samples\<close>

record tensor =
  dims :: "nat list"
  flat :: "fl list"

definition numel :: "tensor \<Rightarrow> nat" where
  "numel t = prod_list (dims t)"

text \<open>
  Torch multiplies the entries of a shape in signed 64-bit arithmetic: the product
  wraps around. An entry that does not fit 64 bits cannot be unpacked and raises.
\<close>

definition int64_wrap :: "int \<Rightarrow> int" where
  "int64_wrap n = (n + 2 ^ 63) mod 2 ^ 64 - 2 ^ 63"

definition size_numel :: "nat list \<Rightarrow> error + int" where
  "size_numel shape =
     (if list_ex (\<lambda>d. 2 ^ 63 \<le> d) shape then
        Inl (OtherError ''Overflow when unpacking long'')
      else Inr (int64_wrap (int (prod_list shape))))"

text \<open>
  \<open>samples.reshape((*sample_shape, -1))\<close>: the last dimension is inferred. Torch
  infers it only when the (wrapped) product of the given dimensions is positive and
  divides the number of elements; otherwise the call raises (with a product of zero
  the inferred dimension is ambiguous or the shape is invalid).
\<close>

definition reshape_infer_last :: "tensor \<Rightarrow> nat list \<Rightarrow> error + tensor" where
  "reshape_infer_last t sample_shape =
     (let newsize = int64_wrap (int (prod_list sample_shape)) in
      if 0 < newsize \<and> int (numel t) mod newsize = 0 then
        Inr (t\<lparr>dims := sample_shape @ [nat (int (numel t) div newsize)]\<rparr>)
      else if int (numel t) = newsize then
        Inl (RuntimeError ''cannot reshape tensor of 0 elements: the unspecified dimension size -1 is ambiguous'')
      else Inl (RuntimeError ''shape is invalid for input size''))"

subsection \<open>Contexts and the state of the posterior object\<close>

text \<open>
  A context is a tensor object: \<open>ident\<close> is the identity of the object (what Python's
  \<open>is\<close> compares) and \<open>content\<close> its value.
\<close>

record 'v ctx =
  ident :: nat
  content :: "'v"

datatype pyval = PyInt int | PyStr string | PyNone

type_synonym mcmc_dict = "string \<rightharpoonup> pyval"

text \<open>The attributes of \<open>self\<close> that the methods of the file read or write.\<close>

record 'v posterior =
  method_family :: string
  sample_with_mcmc :: bool
  mcmc_method :: string
  mcmc_parameters :: mcmc_dict
  default_x :: "'v ctx option"
  leakage_density_correction_factor :: "fl option"

subsection \<open>Collaborators\<close>

text \<open>
  \<open>'th\<close> is a batch of parameters, \<open>'w\<close> the state outside the object that a sampler
  changes (the random number generator, the number of draws made so far). A call that
  raises returns \<open>Inl\<close>.
  \<^item> \<open>net_log_prob\<close> is \<open>self.net.log_prob(theta, x)\<close>, \<open>prior_log_prob\<close> is
    \<open>self._prior.log_prob(theta)\<close>; both return a one-dimensional tensor.
  \<^item> \<open>ne_any a b\<close> is \<open>(a != b).any()\<close>; it raises when the shapes of the two
    tensors do not broadcast.
  \<^item> \<open>sample_posterior_within_prior\<close> is the function of \<open>sbi.utils\<close> applied to
    \<open>self.net\<close> and \<open>self._prior\<close>; it returns the accepted samples and the
    acceptance rate.
  \<^item> \<open>x_else_default_x\<close>, \<open>ensure_single_x\<close>, \<open>ensure_x_consistent_with_default_x\<close>
    and \<open>sample_posterior_mcmc\<close> are the methods of the base class; they read the
    object and do not write it.
\<close>

record ('v, 'th, 'w) collaborators =
  net_log_prob :: "'th \<Rightarrow> 'v ctx \<Rightarrow> fl list"
  prior_log_prob :: "'th \<Rightarrow> fl list"
  ne_any :: "'v \<Rightarrow> 'v \<Rightarrow> error + bool"
  batched_first_of_batch :: "'v ctx \<Rightarrow> 'v ctx"
  atleast_2d_float32_tensor :: "'v ctx \<Rightarrow> 'v ctx"
  sample_posterior_within_prior ::
    "'v ctx \<Rightarrow> int \<Rightarrow> bool \<Rightarrow> 'w \<Rightarrow> (error + tensor \<times> fl) \<times> 'w"
  x_else_default_x :: "'v posterior \<Rightarrow> 'v ctx option \<Rightarrow> error + 'v ctx"
  ensure_single_x :: "'v ctx \<Rightarrow> error option"
  ensure_x_consistent_with_default_x :: "'v posterior \<Rightarrow> 'v ctx \<Rightarrow> error option"
  sample_posterior_mcmc ::
    "'v posterior \<Rightarrow> 'v ctx \<Rightarrow> int \<Rightarrow> bool \<Rightarrow> string \<Rightarrow> mcmc_dict \<Rightarrow> 'w
      \<Rightarrow> (error + tensor) \<times> 'w"

subsection \<open>\<open>set_sample_with_mcmc\<close>\<close>

text \<open>
  The result is the outcome of the call paired with the object after it. The method
  returns \<open>self\<close>, so a successful outcome carries the object itself.
\<close>

definition set_sample_with_mcmc ::
  "'v posterior \<Rightarrow> bool \<Rightarrow> (error + 'v posterior) \<times> 'v posterior" where
  "set_sample_with_mcmc s use_mcmc =
     (if \<not> use_mcmc \<and> method_family s \<notin> set [''snpe''] then
        (Inl (ValueError (method_family s @ '' cannot use MCMC for sampling.'')), s)
      else
        (let s' = s\<lparr>sample_with_mcmc := use_mcmc\<rparr> in (Inr s', s')))"

subsection \<open>\<open>leakage_correction\<close>\<close>

definition acceptance_at ::
  "('v, 'th, 'w) collaborators \<Rightarrow> int \<Rightarrow> bool \<Rightarrow> 'v ctx \<Rightarrow> 'w \<Rightarrow> (error + fl) \<times> 'w" where
  "acceptance_at env num_rejection_samples show_progress_bars x w =
     (case sample_posterior_within_prior env x num_rejection_samples show_progress_bars w of
        (Inl e, w') \<Rightarrow> (Inl e, w')
      | (Inr (samples, acceptance), w') \<Rightarrow> (Inr acceptance, w'))"

text \<open>
  \<open>is_new_x\<close> is the test of line 185: no default context, or a different object one
  of whose entries differs. The comparison of the contents is reached only when the
  two objects differ, and it may raise.
\<close>

definition is_new_x ::
  "('v, 'th, 'w) collaborators \<Rightarrow> 'v posterior \<Rightarrow> 'v ctx \<Rightarrow> error + bool" where
  "is_new_x env s x =
     (case default_x s of
        None \<Rightarrow> Inr True
      | Some dx \<Rightarrow>
          if ident x \<noteq> ident dx then ne_any env (content x) (content dx) else Inr False)"

text \<open>
  The branches of lines 191 to 196. An exception of the comparison ends the call
  before any estimate. With a new context the estimate at \<open>x\<close> is returned and nothing
  is saved. Otherwise a default context \<open>dx\<close> exists; when no factor is saved or
  \<open>force_update\<close> is set, the estimate at \<open>dx\<close> is saved and returned, and else the
  saved factor is returned. An estimator that raises leaves the attribute unassigned.
\<close>

definition leakage_correction ::
  "('v, 'th, 'w) collaborators \<Rightarrow> 'v posterior \<Rightarrow> 'v ctx \<Rightarrow> int \<Rightarrow> bool \<Rightarrow> bool \<Rightarrow> 'w
    \<Rightarrow> (error + fl) \<times> 'v posterior \<times> 'w" where
  "leakage_correction env s x num_rejection_samples force_update show_progress_bars w =
     (case default_x s of
        None \<Rightarrow>
          (case acceptance_at env num_rejection_samples show_progress_bars x w of
             (r, w') \<Rightarrow> (r, s, w'))
      | Some dx \<Rightarrow>
          (case is_new_x env s x of
             Inl e \<Rightarrow> (Inl e, s, w)
           | Inr True \<Rightarrow>
               (case acceptance_at env num_rejection_samples show_progress_bars x w of
                  (r, w') \<Rightarrow> (r, s, w'))
           | Inr False \<Rightarrow>
               (let at_default_x =
                      (case acceptance_at env num_rejection_samples show_progress_bars dx w of
                         (Inl e, w') \<Rightarrow> (Inl e, s, w')
                       | (Inr a, w') \<Rightarrow>
                           (Inr a, s\<lparr>leakage_density_correction_factor := Some a\<rparr>, w'))
                in case leakage_density_correction_factor s of
                     None \<Rightarrow> at_default_x
                   | Some c \<Rightarrow> if force_update then at_default_x else (Inr c, s, w))))"

subsection \<open>\<open>_log_prob_snpe\<close>\<close>

definition log_prob_snpe ::
  "('v, 'th, 'w) collaborators \<Rightarrow> 'v posterior \<Rightarrow> 'th \<Rightarrow> 'v ctx \<Rightarrow> bool \<Rightarrow> 'w
    \<Rightarrow> (error + fl list) \<times> 'v posterior \<times> 'w" where
  "log_prob_snpe env s theta x norm_posterior w =
     (let unnorm_log_prob = net_log_prob env theta x;
          is_prior_finite = map torch_isfinite (prior_log_prob env theta)
      in case torch_where is_prior_finite unnorm_log_prob NInf of
           Inl e \<Rightarrow> (Inl e, s, w)
         | Inr masked_log_prob \<Rightarrow>
             if norm_posterior then
               (case leakage_correction env s (batched_first_of_batch env x) 10000 False False w of
                  (Inl e, s', w') \<Rightarrow> (Inl e, s', w')
                | (Inr c, s', w') \<Rightarrow>
                    (Inr (map (\<lambda>v. torch_sub v (torch_log c)) masked_log_prob), s', w'))
             else (Inr (map (\<lambda>v. torch_sub v (Fin 0)) masked_log_prob), s, w))"

subsection \<open>\<open>sample\<close>\<close>

text \<open>
  Lines 242 to 248: each optional argument of the call stands in for the stored
  attribute when it is given.
\<close>

definition arg_else :: "'a option \<Rightarrow> 'a \<Rightarrow> 'a" where
  "arg_else arg stored = (case arg of Some a \<Rightarrow> a | None \<Rightarrow> stored)"

text \<open>
  The chain runner is a bound method called with \<open>x\<close>, \<open>num_samples\<close>,
  \<open>show_progress_bars\<close> and \<open>mcmc_method\<close> as keywords and with \<open>**mcmc_parameters\<close>:
  a dictionary that holds one of these four keys, or the key \<open>self\<close>, makes the call
  raise before the runner starts.
\<close>

definition keyword_clash :: "mcmc_dict \<Rightarrow> bool" where
  "keyword_clash d =
     list_ex (\<lambda>k. d k \<noteq> None)
       [''self'', ''x'', ''num_samples'', ''show_progress_bars'', ''mcmc_method'']"

definition sample ::
  "('v, 'th, 'w) collaborators \<Rightarrow> 'v posterior \<Rightarrow> nat list \<Rightarrow> 'v ctx option \<Rightarrow> bool
    \<Rightarrow> bool option \<Rightarrow> string option \<Rightarrow> mcmc_dict option \<Rightarrow> 'w
    \<Rightarrow> (error + tensor) \<times> 'v posterior \<times> 'w" where
  "sample env s sample_shape x show_progress_bars with_mcmc_arg method_arg parameters_arg w =
     (case x_else_default_x env s x of
        Inl e \<Rightarrow> (Inl e, s, w)
      | Inr x0 \<Rightarrow>
          (let x1 = atleast_2d_float32_tensor env x0 in
           case ensure_single_x env x1 of
             Some e \<Rightarrow> (Inl e, s, w)
           | None \<Rightarrow>
               (case ensure_x_consistent_with_default_x env s x1 of
                  Some e \<Rightarrow> (Inl e, s, w)
                | None \<Rightarrow>
                    (case size_numel sample_shape of
                       Inl e \<Rightarrow> (Inl e, s, w)
                     | Inr num_samples \<Rightarrow>
                         (let with_mcmc = arg_else with_mcmc_arg (sample_with_mcmc s);
                              method = arg_else method_arg (mcmc_method s);
                              parameters = arg_else parameters_arg (mcmc_parameters s)
                          in if with_mcmc then
                               (if keyword_clash parameters then
                                  (Inl (TypeError ''got multiple values for keyword argument''),
                                   s, w)
                                else
                                  (case sample_posterior_mcmc env s x1 num_samples
                                          show_progress_bars method parameters w of
                                     (Inl e, w') \<Rightarrow> (Inl e, s, w')
                                   | (Inr samples, w') \<Rightarrow>
                                       (reshape_infer_last samples sample_shape, s, w')))
                             else
                               (case sample_posterior_within_prior env x1 num_samples
                                       show_progress_bars w of
                                  (Inl e, w') \<Rightarrow> (Inl e, s, w')
                                | (Inr (samples, acceptance), w') \<Rightarrow>
                                    (reshape_infer_last samples sample_shape, s, w')))))))"

subsection \<open>A concrete set of collaborators\<close>

text \<open>
  One instance of the collaborators, on which the functions above can be run. Contexts
  hold a row of integers, a batch of parameters is a list of reals, and the outside
  state is the log of the sampler calls made so far. Two rows are compared entry by
  entry when they are equally long, a row of one entry is broadcast, and rows of any
  other two lengths cannot be compared. The prior is uniform on the unit
  interval; the rejection sampler reports an acceptance rate that changes from call to
  call; the chain runner returns rows that show the \<open>thin\<close> and \<open>warmup_steps\<close> it
  was given.
\<close>

definition row_ne_any :: "int list \<Rightarrow> int list \<Rightarrow> error + bool" where
  "row_ne_any a b =
     (if length a = length b then Inr (list_ex (\<lambda>(u, v). u \<noteq> v) (zip a b))
      else if length a = 1 then Inr (list_ex (\<lambda>v. hd a \<noteq> v) b)
      else if length b = 1 then Inr (list_ex (\<lambda>u. u \<noteq> hd b) a)
      else Inl (RuntimeError ''The size of tensor a must match the size of tensor b''))"

definition shown :: "pyval option \<Rightarrow> fl" where
  "shown v = (case v of Some (PyInt k) \<Rightarrow> Fin (of_int k) | _ \<Rightarrow> NaN)"

definition demo_env :: "(int list, real list, string list) collaborators" where
  "demo_env =
     \<lparr> net_log_prob = (\<lambda>theta x. map (\<lambda>t. Fin (- t)) theta),
       prior_log_prob = (\<lambda>theta. map (\<lambda>t. if 0 \<le> t \<and> t \<le> 1 then Fin 0 else NInf) theta),
       ne_any = row_ne_any,
       batched_first_of_batch = (\<lambda>c. \<lparr>ident = Suc (ident c), content = content c\<rparr>),
       atleast_2d_float32_tensor = (\<lambda>c. c),
       sample_posterior_within_prior =
         (\<lambda>x n show_progress_bars w.
            (Inr (\<lparr>dims = [nat n, 1], flat = replicate (nat n) (Fin (1 / 2))\<rparr>,
                  Fin (1 / (2 + real (length w)))),
             w @ [''sample_posterior_within_prior''])),
       x_else_default_x =
         (\<lambda>s x. case x of
              Some c \<Rightarrow> Inr c
            | None \<Rightarrow>
                (case default_x s of
                   Some d \<Rightarrow> Inr d
                 | None \<Rightarrow> Inl (ValueError ''Context x needed when a default has not been set.''))),
       ensure_single_x = (\<lambda>c. None),
       ensure_x_consistent_with_default_x = (\<lambda>s c. None),
       sample_posterior_mcmc =
         (\<lambda>s x n show_progress_bars method parameters w.
            (Inr \<lparr>dims = [nat n, 2],
                  flat = concat (replicate (nat n)
                           [shown (parameters ''thin''), shown (parameters ''warmup_steps'')])\<rparr>,
             w @ [''_sample_posterior_mcmc''])) \<rparr>"

definition demo_x :: "int list ctx" where
  "demo_x = \<lparr>ident = 7, content = [1, 2, 3]\<rparr>"

definition snpe_posterior :: "int list posterior" where
  "snpe_posterior =
     \<lparr> method_family = ''snpe'', sample_with_mcmc = False, mcmc_method = ''slice_np'',
       mcmc_parameters = [''thin'' \<mapsto> PyInt 10, ''warmup_steps'' \<mapsto> PyInt 100],
       default_x = Some demo_x, leakage_density_correction_factor = None \<rparr>"

definition snl_posterior :: "int list posterior" where
  "snl_posterior =
     \<lparr> method_family = ''snl'', sample_with_mcmc = True, mcmc_method = ''slice_np'',
       mcmc_parameters = [''thin'' \<mapsto> PyInt 10, ''warmup_steps'' \<mapsto> PyInt 100],
       default_x = Some demo_x, leakage_density_correction_factor = None \<rparr>"




definition cached_posterior :: "int list posterior" where
  "cached_posterior = snpe_posterior\<lparr>leakage_density_correction_factor := Some (Fin (1 / 2))\<rparr>"

section \<open>Properties\<close>

subsection \<open>Auxiliary facts\<close>

lemma torch_sub_zero: "torch_sub v (Fin 0) = v"
  by (cases v) simp_all

lemma map_torch_sub_zero: "map (\<lambda>v. torch_sub v (Fin 0)) vs = vs"
  by (simp add: torch_sub_zero)

lemma torch_sub_NInf_log: "0 < c \<Longrightarrow> torch_sub NInf (torch_log (Fin c)) = NInf"
  by simp

text \<open>
  The positivity matters: with a factor of zero the logarithm is \<open>-inf\<close>, and \<open>-inf\<close>
  minus \<open>-inf\<close> is NaN.
\<close>

lemma torch_sub_NInf_log_zero: "torch_sub NInf (torch_log (Fin 0)) = NaN"
  by simp

lemma torch_where_same_length:
  "length cond = length a \<Longrightarrow>
     torch_where cond a other = Inr (map (\<lambda>(c, v). if c then v else other) (zip cond a))"
  by (simp add: torch_where_def)

lemma arg_else_simps: "arg_else None stored = stored" "arg_else (Some a) stored = a"
  by (simp_all add: arg_else_def)

lemma replicate_2: "replicate 2 v = [v, v]"
  by (simp add: numeral_2_eq_2)

lemma is_new_x_default:
  "default_x s = Some dx \<Longrightarrow>
   ident (x :: 'v ctx) = ident dx \<or> ne_any env (content x) (content dx) = Inr False \<Longrightarrow>
   is_new_x env s x = Inr False"
  by (auto simp: is_new_x_def)


lemma leakage_correction_miss:
  assumes "default_x s = Some dx" and "is_new_x env s x = Inr False"
    and "leakage_density_correction_factor s = None \<or> force_update"
  shows "leakage_correction env s x n force_update sp w =
           (case acceptance_at env n sp dx w of
              (Inl e, w') \<Rightarrow> (Inl e, s, w')
            | (Inr a, w') \<Rightarrow> (Inr a, s\<lparr>leakage_density_correction_factor := Some a\<rparr>, w'))"
  using assms by (auto simp: leakage_correction_def Let_def split: option.splits)




lemma log_prob_snpe_unnormalised:
  "log_prob_snpe env s theta x False w =
     (case torch_where (map torch_isfinite (prior_log_prob env theta))
             (net_log_prob env theta x) NInf of
        Inl e \<Rightarrow> Inl e
      | Inr masked \<Rightarrow> Inr masked, s, w)"
  by (simp add: log_prob_snpe_def Let_def map_torch_sub_zero split: sum.splits)

lemma log_prob_snpe_normalised:
  assumes "torch_where (map torch_isfinite (prior_log_prob env theta))
             (net_log_prob env theta x) NInf = Inr masked"
    and "leakage_correction env s (batched_first_of_batch env x) 10000 False False w
           = (Inr c, s', w')"
  shows "log_prob_snpe env s theta x True w =
           (Inr (map (\<lambda>v. torch_sub v (torch_log c)) masked), s', w')"
  using assms by (simp add: log_prob_snpe_def Let_def)

lemma sample_state_unchanged: "fst (snd (sample env s shp x sp a b c w)) = s"
  by (simp add: sample_def Let_def split: sum.splits option.splits prod.splits)

lemma sample_stored_settings:
  "sample env s shp x sp None None None w =
     sample env s shp x sp (Some (sample_with_mcmc s)) (Some (mcmc_method s))
       (Some (mcmc_parameters s)) w"
  unfolding sample_def arg_else_simps by (rule refl)

lemma int64_wrap_small: "0 \<le> n \<Longrightarrow> n < 2 ^ 63 \<Longrightarrow> int64_wrap n = n"
  by (simp add: int64_wrap_def)

lemma prod_list_entry_le:
  "0 < prod_list (shp :: nat list) \<Longrightarrow> d \<in> set shp \<Longrightarrow> d \<le> prod_list shp"
proof (induction shp)
  case Nil
  then show ?case by simp
next
  case (Cons a shp)
  from Cons.prems(1) have a: "0 < a" and p: "0 < prod_list shp"
    by simp_all
  show ?case
  proof (cases "d = a")
    case True
    then show ?thesis using p by simp
  next
    case False
    with Cons.prems(2) have "d \<in> set shp" by simp
    from Cons.IH [OF p this] have "d \<le> prod_list shp" .
    also have "\<dots> \<le> a * prod_list shp" using a by simp
    finally show ?thesis by simp
  qed
qed

lemma size_numel_small:
  assumes "0 < prod_list shp" and "prod_list shp < 2 ^ 63"
  shows "size_numel shp = Inr (int (prod_list shp))"
proof -
  have "\<not> list_ex (\<lambda>d. 2 ^ 63 \<le> d) shp"
    using prod_list_entry_le [OF assms(1)] assms(2)
    by (fastforce simp: list_ex_iff)
  moreover have "int (prod_list shp) < 2 ^ 63"
    using assms(2) by (metis of_nat_less_iff of_nat_numeral of_nat_power)
  ultimately show ?thesis
    by (simp add: size_numel_def int64_wrap_small)
qed

lemma numel_rows: "dims t = [n, d] \<Longrightarrow> numel t = n * d"
  by (simp add: numel_def)

lemma reshape_rows:
  assumes "dims t = [prod_list shp, d]" and "0 < prod_list shp" and "prod_list shp < 2 ^ 63"
  shows "reshape_infer_last t shp = Inr (t\<lparr>dims := shp @ [d]\<rparr>)"
proof -
  have "int (prod_list shp) < 2 ^ 63"
    using assms(3) by (metis of_nat_less_iff of_nat_numeral of_nat_power)
  then have w: "int64_wrap (int (prod_list shp)) = int (prod_list shp)"
    by (simp add: int64_wrap_small)
  have "int (numel t) div int (prod_list shp) = int d"
    using assms(1,2) by (simp add: numel_rows)
  then show ?thesis
    using assms(1,2) by (simp add: reshape_infer_last_def w numel_rows)
qed

lemma reshape_zero: "prod_list shp = 0 \<Longrightarrow> \<exists>e. reshape_infer_last t shp = Inl e"
  by (simp add: reshape_infer_last_def int64_wrap_def)

lemma sample_rejection:
  assumes "x_else_default_x env s x = Inr x0"
    and "ensure_single_x env (atleast_2d_float32_tensor env x0) = None"
    and "ensure_x_consistent_with_default_x env s (atleast_2d_float32_tensor env x0) = None"
    and "size_numel shp = Inr num_samples"
    and "\<not> arg_else a (sample_with_mcmc s)"
    and "sample_posterior_within_prior env (atleast_2d_float32_tensor env x0)
           num_samples sp w = (Inr (t, acc), w')"
  shows "sample env s shp x sp a b c w = (reshape_infer_last t shp, s, w')"
  using assms by (simp add: sample_def Let_def)

lemma sample_mcmc_call:
  assumes "x_else_default_x env s x = Inr x0"
    and "ensure_single_x env (atleast_2d_float32_tensor env x0) = None"
    and "ensure_x_consistent_with_default_x env s (atleast_2d_float32_tensor env x0) = None"
    and "size_numel shp = Inr num_samples"
    and "arg_else a (sample_with_mcmc s)"
    and "\<not> keyword_clash (arg_else c (mcmc_parameters s))"
  shows "sample env s shp x sp a b c w =
           (case sample_posterior_mcmc env s (atleast_2d_float32_tensor env x0) num_samples sp
                   (arg_else b (mcmc_method s)) (arg_else c (mcmc_parameters s)) w of
              (Inl e, w') \<Rightarrow> (Inl e, s, w')
            | (Inr t, w') \<Rightarrow> (reshape_infer_last t shp, s, w'))"
  using assms by (simp add: sample_def Let_def)

lemma sample_mcmc:
  assumes "x_else_default_x env s x = Inr x0"
    and "ensure_single_x env (atleast_2d_float32_tensor env x0) = None"
    and "ensure_x_consistent_with_default_x env s (atleast_2d_float32_tensor env x0) = None"
    and "size_numel shp = Inr num_samples"
    and "arg_else a (sample_with_mcmc s)"
    and "\<not> keyword_clash (arg_else c (mcmc_parameters s))"
    and "sample_posterior_mcmc env s (atleast_2d_float32_tensor env x0)
           num_samples sp (arg_else b (mcmc_method s))
           (arg_else c (mcmc_parameters s)) w = (Inr t, w')"
  shows "sample env s shp x sp a b c w = (reshape_infer_last t shp, s, w')"
  using assms by (simp add: sample_def Let_def)

text \<open>
  With a requested shape whose product is zero the final reshape cannot infer the last
  dimension, so \<open>sample\<close> raises whatever the collaborators do.
\<close>

lemma sample_zero_product_raises:
  assumes "prod_list shp = 0"
  shows "\<exists>e. fst (sample env s shp x sp a b c w) = Inl e"
  using reshape_zero [OF assms]
  by (auto simp: sample_def Let_def split: sum.splits option.splits prod.splits)

text \<open>
  The product of the shape \<open>(2^32, 2^32)\<close> wraps to zero: no draw is asked for.
\<close>

lemma size_numel_wraps: "size_numel [2 ^ 32, 2 ^ 32] = Inr 0"
  by (simp add: size_numel_def int64_wrap_def)


lemmas sample_defs =
  sample_def arg_else_def keyword_clash_def size_numel_def int64_wrap_def
  reshape_infer_last_def numel_def Let_def

lemma demo_acceptance_at:
  "acceptance_at demo_env n sp x w =
     (Inr (Fin (1 / (2 + real (length w)))), w @ [''sample_posterior_within_prior''])"
  by (simp add: acceptance_at_def demo_env_def)

subsection \<open>The sampling mode\<close>

text \<open>
  C5. \<open>set_sample_with_mcmc(False)\<close> on a posterior whose method family is not
  \<open>snpe\<close> raises (a \<open>ValueError\<close>, the configuration error of the specification) and
  leaves the object as it was. In every other case, that is \<open>use_mcmc = True\<close> for any
  family or \<open>use_mcmc = False\<close> for \<open>snpe\<close>, the call stores \<open>use_mcmc\<close> as the
  sampling mode, changes nothing else, and returns the object.
\<close>

theorem set_sample_with_mcmc_guard:
  "(\<not> use_mcmc \<and> method_family s \<noteq> ''snpe'' \<longrightarrow>
      (\<exists>msg. fst (set_sample_with_mcmc s use_mcmc) = Inl (ValueError msg))
      \<and> snd (set_sample_with_mcmc s use_mcmc) = s)
   \<and> (use_mcmc \<or> method_family s = ''snpe'' \<longrightarrow>
      set_sample_with_mcmc s use_mcmc
        = (Inr (s\<lparr>sample_with_mcmc := use_mcmc\<rparr>), s\<lparr>sample_with_mcmc := use_mcmc\<rparr>))"
  by (auto simp: set_sample_with_mcmc_def Let_def)

theorem set_sample_with_mcmc_guard_witness:
  "(\<not> False \<and> method_family snl_posterior \<noteq> ''snpe'')
   \<and> (\<exists>msg. fst (set_sample_with_mcmc snl_posterior False) = Inl (ValueError msg))
   \<and> snd (set_sample_with_mcmc snl_posterior False) = snl_posterior
   \<and> (False \<or> method_family cached_posterior = ''snpe'')
   \<and> set_sample_with_mcmc cached_posterior False
        = (Inr (cached_posterior\<lparr>sample_with_mcmc := False\<rparr>),
           cached_posterior\<lparr>sample_with_mcmc := False\<rparr>)
   \<and> (True \<or> method_family snl_posterior = ''snpe'')
   \<and> set_sample_with_mcmc snl_posterior True
        = (Inr (snl_posterior\<lparr>sample_with_mcmc := True\<rparr>),
           snl_posterior\<lparr>sample_with_mcmc := True\<rparr>)"
proof -
  have h1: "\<not> False \<and> method_family snl_posterior \<noteq> ''snpe''"
    by (simp add: snl_posterior_def)
  have h2: "False \<or> method_family cached_posterior = ''snpe''"
    by (simp add: cached_posterior_def snpe_posterior_def)
  have h3: "True \<or> method_family snl_posterior = ''snpe''"
    by simp
  from h1 h2 h3
    set_sample_with_mcmc_guard [of False snl_posterior]
    set_sample_with_mcmc_guard [of False cached_posterior]
    set_sample_with_mcmc_guard [of True snl_posterior]
  show ?thesis by blast
qed

subsection \<open>The leakage correction and its cache\<close>






subsection \<open>The masked log-probability\<close>

text \<open>
  C2. Let the prior and the network each return one log-density per row of \<open>theta\<close>,
  and let the prior's log-density at row \<open>i\<close> be not finite. Then entry \<open>i\<close> of the
  result of \<open>_log_prob_snpe\<close> is \<open>-inf\<close>, whatever the network returned for that row:
  without normalisation the call returns such a result, and with normalisation it
  does whenever the leakage correction returns a positive factor (the correction
  factor is an acceptance rate, a probability in the interval from 0, excluded, to 1).
\<close>

theorem log_prob_snpe_outside_support:
  assumes len: "length (prior_log_prob env theta) = length (net_log_prob env theta x)"
    and i: "i < length (prior_log_prob env theta)"
    and out: "\<not> torch_isfinite (prior_log_prob env theta ! i)"
  shows "(\<exists>r. log_prob_snpe env s theta x False w = (Inr r, s, w)
              \<and> length r = length (prior_log_prob env theta) \<and> r ! i = NInf)
       \<and> (\<forall>c s' w'.
            leakage_correction env s (batched_first_of_batch env x) 10000 False False w
              = (Inr (Fin c), s', w') \<and> 0 < c \<longrightarrow>
            (\<exists>r. log_prob_snpe env s theta x True w = (Inr r, s', w')
                  \<and> length r = length (prior_log_prob env theta) \<and> r ! i = NInf))"
proof -
  let ?cond = "map torch_isfinite (prior_log_prob env theta)"
  let ?masked = "map (\<lambda>(c, v). if c then v else NInf) (zip ?cond (net_log_prob env theta x))"
  have w: "torch_where ?cond (net_log_prob env theta x) NInf = Inr ?masked"
    using len by (simp add: torch_where_same_length)
  have l: "length ?masked = length (prior_log_prob env theta)"
    using len by simp
  have e: "?masked ! i = NInf"
    using len i out by simp
  have unnorm: "\<exists>r. log_prob_snpe env s theta x False w = (Inr r, s, w)
              \<and> length r = length (prior_log_prob env theta) \<and> r ! i = NInf"
    using l e by (simp add: log_prob_snpe_unnormalised w)
  have norm: "\<forall>c s' w'.
            leakage_correction env s (batched_first_of_batch env x) 10000 False False w
              = (Inr (Fin c), s', w') \<and> 0 < c \<longrightarrow>
            (\<exists>r. log_prob_snpe env s theta x True w = (Inr r, s', w')
                  \<and> length r = length (prior_log_prob env theta) \<and> r ! i = NInf)"
  proof (intro allI impI, elim conjE)
    fix c s' w'
    assume lc: "leakage_correction env s (batched_first_of_batch env x) 10000 False False w
              = (Inr (Fin c), s', w')" and pos: "0 < c"
    have il: "i < length ?masked" using l i by simp
    have "map (\<lambda>v. torch_sub v (torch_log (Fin c))) ?masked ! i
            = torch_sub (?masked ! i) (torch_log (Fin c))"
      using il by (rule nth_map)
    also have "\<dots> = NInf"
      using pos by (simp only: e torch_sub_NInf_log)
    finally have "map (\<lambda>v. torch_sub v (torch_log (Fin c))) ?masked ! i = NInf" .
    moreover have "length (map (\<lambda>v. torch_sub v (torch_log (Fin c))) ?masked)
                     = length (prior_log_prob env theta)"
      using l by simp
    ultimately show "\<exists>r. log_prob_snpe env s theta x True w = (Inr r, s', w')
                  \<and> length r = length (prior_log_prob env theta) \<and> r ! i = NInf"
      unfolding log_prob_snpe_normalised [OF w lc] by blast
  qed
  from unnorm norm show ?thesis by blast
qed

text \<open>
  The collaborators of the example on the batch \<open>[1/2, 2]\<close>: the second row lies
  outside the unit interval.
\<close>

lemma demo_leakage_correction_first:
  "leakage_correction demo_env snpe_posterior (batched_first_of_batch demo_env demo_x)
     10000 False False []
   = (Inr (Fin (1 / 2)), cached_posterior, [''sample_posterior_within_prior''])"
proof -
  have d: "default_x snpe_posterior = Some demo_x"
    by (simp add: snpe_posterior_def)
  have e: "ident (batched_first_of_batch demo_env demo_x) = ident demo_x
           \<or> ne_any demo_env (content (batched_first_of_batch demo_env demo_x))
                   (content demo_x) = Inr False"
    by (simp add: demo_env_def row_ne_any_def demo_x_def)
  have f: "leakage_density_correction_factor snpe_posterior = None \<or> False"
    by (simp add: snpe_posterior_def)
  show ?thesis
    unfolding leakage_correction_miss [OF d is_new_x_default [OF d e] f]
    by (simp add: demo_acceptance_at cached_posterior_def)
qed

theorem log_prob_snpe_outside_support_witness:
  "length (prior_log_prob demo_env [1 / 2, 2]) = length (net_log_prob demo_env [1 / 2, 2] demo_x)
   \<and> 1 < length (prior_log_prob demo_env [1 / 2, 2])
   \<and> \<not> torch_isfinite (prior_log_prob demo_env [1 / 2, 2] ! 1)
   \<and> (0 :: real) < 1 / 2
   \<and> (\<exists>r. log_prob_snpe demo_env snpe_posterior [1 / 2, 2] demo_x False []
              = (Inr r, snpe_posterior, []) \<and> r ! 1 = NInf)
   \<and> (\<exists>r. log_prob_snpe demo_env snpe_posterior [1 / 2, 2] demo_x True []
              = (Inr r, cached_posterior, [''sample_posterior_within_prior'']) \<and> r ! 1 = NInf)"
proof -
  have h1: "length (prior_log_prob demo_env [1 / 2, 2])
              = length (net_log_prob demo_env [1 / 2, 2] demo_x)"
    by (simp add: demo_env_def)
  have h2: "1 < length (prior_log_prob demo_env [1 / 2, 2])"
    by (simp add: demo_env_def)
  have h3: "\<not> torch_isfinite (prior_log_prob demo_env [1 / 2, 2] ! 1)"
    by (simp add: demo_env_def)
  have h4: "(0 :: real) < 1 / 2"
    by simp
  from log_prob_snpe_outside_support [OF h1 h2 h3, of snpe_posterior "[]"]
    demo_leakage_correction_first h4
  have "(\<exists>r. log_prob_snpe demo_env snpe_posterior [1 / 2, 2] demo_x False []
              = (Inr r, snpe_posterior, []) \<and> r ! 1 = NInf)
   \<and> (\<exists>r. log_prob_snpe demo_env snpe_posterior [1 / 2, 2] demo_x True []
              = (Inr r, cached_posterior, [''sample_posterior_within_prior'']) \<and> r ! 1 = NInf)"
    by blast
  with h1 h2 h3 h4 show ?thesis by blast
qed

text \<open>
  C3. When the unnormalised call returns the entries \<open>r0\<close> and the leakage correction
  at the first element of the batch of \<open>x\<close> returns the factor \<open>c\<close>, the normalised
  call returns \<open>r0\<close> with \<open>log c\<close> subtracted from every entry: one estimate of the
  correction serves the whole batch. For a positive factor \<open>k\<close>, a finite entry \<open>v\<close>
  (an in-support row) becomes \<open>v - ln k\<close>. The object and the state of the samplers
  after the normalised call are those the correction left.
\<close>

theorem log_prob_snpe_normalised_minus_log_correction:
  assumes u: "log_prob_snpe env s theta x False w = (Inr r0, s0, w0)"
    and lc: "leakage_correction env s (batched_first_of_batch env x) 10000 False False w
               = (Inr c, s', w')"
  shows "log_prob_snpe env s theta x True w =
           (Inr (map (\<lambda>v. torch_sub v (torch_log c)) r0), s', w')
       \<and> (\<forall>k i v. c = Fin k \<and> 0 < k \<and> i < length r0 \<and> r0 ! i = Fin v \<longrightarrow>
            (\<exists>r1. log_prob_snpe env s theta x True w = (Inr r1, s', w')
                  \<and> length r1 = length r0 \<and> r1 ! i = Fin (v - ln k)))"
proof -
  from u have "torch_where (map torch_isfinite (prior_log_prob env theta))
                 (net_log_prob env theta x) NInf = Inr r0"
    by (simp add: log_prob_snpe_unnormalised split: sum.splits)
  then have eq: "log_prob_snpe env s theta x True w =
           (Inr (map (\<lambda>v. torch_sub v (torch_log c)) r0), s', w')"
    using lc by (rule log_prob_snpe_normalised)
  have "\<forall>k i v. c = Fin k \<and> 0 < k \<and> i < length r0 \<and> r0 ! i = Fin v \<longrightarrow>
            (\<exists>r1. log_prob_snpe env s theta x True w = (Inr r1, s', w')
                  \<and> length r1 = length r0 \<and> r1 ! i = Fin (v - ln k))"
  proof (intro allI impI, elim conjE)
    fix k i v
    assume c: "c = Fin k" and k: "0 < k" and i: "i < length r0" and v: "r0 ! i = Fin v"
    have "map (\<lambda>v. torch_sub v (torch_log c)) r0 ! i = torch_sub (r0 ! i) (torch_log c)"
      using i by (rule nth_map)
    also have "\<dots> = Fin (v - ln k)"
      using c k v by simp
    finally have "map (\<lambda>v. torch_sub v (torch_log c)) r0 ! i = Fin (v - ln k)" .
    then show "\<exists>r1. log_prob_snpe env s theta x True w = (Inr r1, s', w')
                  \<and> length r1 = length r0 \<and> r1 ! i = Fin (v - ln k)"
      unfolding eq by simp
  qed
  with eq show ?thesis by blast
qed

theorem log_prob_snpe_normalised_minus_log_correction_witness:
  "log_prob_snpe demo_env snpe_posterior [1 / 2, 2] demo_x False []
     = (Inr [Fin (- (1 / 2)), NInf], snpe_posterior, [])
   \<and> leakage_correction demo_env snpe_posterior (batched_first_of_batch demo_env demo_x)
        10000 False False []
     = (Inr (Fin (1 / 2)), cached_posterior, [''sample_posterior_within_prior''])
   \<and> (0 :: real) < 1 / 2
   \<and> log_prob_snpe demo_env snpe_posterior [1 / 2, 2] demo_x True []
     = (Inr [Fin (- (1 / 2) - ln (1 / 2)), NInf],
        cached_posterior, [''sample_posterior_within_prior''])"
proof -
  have h1: "log_prob_snpe demo_env snpe_posterior [1 / 2, 2] demo_x False []
     = (Inr [Fin (- (1 / 2)), NInf], snpe_posterior, [])"
    by (simp add: log_prob_snpe_unnormalised torch_where_def demo_env_def)
  have h3: "(0 :: real) < 1 / 2"
    by simp
  from log_prob_snpe_normalised_minus_log_correction [OF h1 demo_leakage_correction_first]
  have "log_prob_snpe demo_env snpe_posterior [1 / 2, 2] demo_x True []
     = (Inr (map (\<lambda>v. torch_sub v (torch_log (Fin (1 / 2)))) [Fin (- (1 / 2)), NInf]),
        cached_posterior, [''sample_posterior_within_prior''])"
    by blast
  then have "log_prob_snpe demo_env snpe_posterior [1 / 2, 2] demo_x True []
     = (Inr [Fin (- (1 / 2) - ln (1 / 2)), NInf],
        cached_posterior, [''sample_posterior_within_prior''])"
    by simp
  with h1 h3 demo_leakage_correction_first show ?thesis by blast
qed

text \<open>
  C9. Without normalisation \<open>_log_prob_snpe\<close> does not enter the leakage correction:
  the object (its cached factor included) and the state of the samplers are returned
  unchanged, the result is the masked log-density minus the constant 0, and the result
  is the same whatever the rejection sampler would have done.
\<close>

theorem log_prob_snpe_unnormalised_skips_correction:
  "snd (log_prob_snpe env s theta x False w) = (s, w)
   \<and> fst (log_prob_snpe env s theta x False w) =
       (case torch_where (map torch_isfinite (prior_log_prob env theta))
               (net_log_prob env theta x) NInf of
          Inl e \<Rightarrow> Inl e
        | Inr masked \<Rightarrow> Inr (map (\<lambda>v. torch_sub v (Fin 0)) masked))
   \<and> log_prob_snpe (env\<lparr>sample_posterior_within_prior := f\<rparr>) s theta x False w
       = log_prob_snpe env s theta x False w"
  by (simp add: log_prob_snpe_def Let_def split: sum.splits)

subsection \<open>Sampling\<close>

text \<open>
  C10. \<open>sample\<close> returns the object as it received it, whatever overrides the call
  carried: the stored sampling mode, MCMC method and MCMC parameters are those from
  before the call. A later call without overrides on the returned object behaves as a
  call on the original object with the stored settings passed explicitly.
\<close>

theorem sample_leaves_configuration:
  "fst (snd (sample env s shp x sp a b c w)) = s
   \<and> sample_with_mcmc (fst (snd (sample env s shp x sp a b c w))) = sample_with_mcmc s
   \<and> mcmc_method (fst (snd (sample env s shp x sp a b c w))) = mcmc_method s
   \<and> mcmc_parameters (fst (snd (sample env s shp x sp a b c w))) = mcmc_parameters s
   \<and> sample env (fst (snd (sample env s shp x sp a b c w))) shp' x' sp' None None None w' =
       sample env s shp' x' sp' (Some (sample_with_mcmc s)) (Some (mcmc_method s))
         (Some (mcmc_parameters s)) w'"
  by (simp add: sample_state_unchanged sample_stored_settings)

text \<open>
  C6, as the code has it. In MCMC mode, once the context has passed the checks, the
  chain runner is called with the caller's dictionary itself when one is supplied, and
  with the stored dictionary when none is: a key of a supplied dictionary takes the
  caller's value, a key absent from a supplied dictionary is absent from what the
  runner receives (the stored value is not kept), and without a supplied dictionary
  every key has its stored value.
\<close>

theorem mcmc_parameters_replaced_whole:
  assumes x: "x_else_default_x env s x = Inr x0"
    and single: "ensure_single_x env (atleast_2d_float32_tensor env x0) = None"
    and cons: "ensure_x_consistent_with_default_x env s (atleast_2d_float32_tensor env x0) = None"
    and size: "size_numel shp = Inr num_samples"
    and mode: "arg_else a (sample_with_mcmc s)"
  shows "(\<not> keyword_clash overrides \<longrightarrow>
            sample env s shp x sp a b (Some overrides) w =
              (case sample_posterior_mcmc env s (atleast_2d_float32_tensor env x0) num_samples sp
                      (arg_else b (mcmc_method s)) overrides w of
                 (Inl e, w') \<Rightarrow> (Inl e, s, w')
               | (Inr t, w') \<Rightarrow> (reshape_infer_last t shp, s, w')))
       \<and> (\<not> keyword_clash (mcmc_parameters s) \<longrightarrow>
            sample env s shp x sp a b None w =
              (case sample_posterior_mcmc env s (atleast_2d_float32_tensor env x0) num_samples sp
                      (arg_else b (mcmc_method s)) (mcmc_parameters s) w of
                 (Inl e, w') \<Rightarrow> (Inl e, s, w')
               | (Inr t, w') \<Rightarrow> (reshape_infer_last t shp, s, w')))
       \<and> (\<forall>k. arg_else (Some overrides) (mcmc_parameters s) k = overrides k)
       \<and> (\<forall>k. arg_else None (mcmc_parameters s) k = mcmc_parameters s k)"
  using sample_mcmc_call [OF x single cons size mode, of "Some overrides" sp b w]
    sample_mcmc_call [OF x single cons size mode, of None sp b w]
  by (simp add: arg_else_simps)

text \<open>
  In the example the chain runner answers with rows that show the \<open>thin\<close> and the
  \<open>warmup_steps\<close> it received: with the override it received \<open>thin = 2\<close> and no
  \<open>warmup_steps\<close>.
\<close>

theorem mcmc_parameters_replaced_whole_witness:
  "x_else_default_x demo_env snl_posterior None = Inr demo_x
   \<and> ensure_single_x demo_env (atleast_2d_float32_tensor demo_env demo_x) = None
   \<and> ensure_x_consistent_with_default_x demo_env snl_posterior
        (atleast_2d_float32_tensor demo_env demo_x) = None
   \<and> size_numel [2] = Inr 2
   \<and> arg_else None (sample_with_mcmc snl_posterior)
   \<and> \<not> keyword_clash [''thin'' \<mapsto> PyInt 2]
   \<and> \<not> keyword_clash (mcmc_parameters snl_posterior)
   \<and> sample demo_env snl_posterior [2] None True None None (Some [''thin'' \<mapsto> PyInt 2]) []
       = (Inr \<lparr>dims = [2, 2], flat = [Fin 2, NaN, Fin 2, NaN]\<rparr>, snl_posterior,
          [''_sample_posterior_mcmc''])
   \<and> sample demo_env snl_posterior [2] None True None None None []
       = (Inr \<lparr>dims = [2, 2], flat = [Fin 10, Fin 100, Fin 10, Fin 100]\<rparr>, snl_posterior,
          [''_sample_posterior_mcmc''])"
proof -
  have x: "x_else_default_x demo_env snl_posterior None = Inr demo_x"
    by (simp add: demo_env_def snl_posterior_def)
  have single: "ensure_single_x demo_env (atleast_2d_float32_tensor demo_env demo_x) = None"
    by (simp add: demo_env_def)
  have cons: "ensure_x_consistent_with_default_x demo_env snl_posterior
        (atleast_2d_float32_tensor demo_env demo_x) = None"
    by (simp add: demo_env_def)
  have size: "size_numel [2] = Inr 2"
    by (simp add: size_numel_def int64_wrap_def)
  have mode: "arg_else None (sample_with_mcmc snl_posterior)"
    by (simp add: arg_else_def snl_posterior_def)
  have c1: "\<not> keyword_clash [''thin'' \<mapsto> PyInt 2]"
    by (simp add: keyword_clash_def)
  have c2: "\<not> keyword_clash (mcmc_parameters snl_posterior)"
    by (simp add: keyword_clash_def snl_posterior_def)
  note inst = mcmc_parameters_replaced_whole
      [OF x single cons size mode, of "[''thin'' \<mapsto> PyInt 2]" True None "[]"]
  from inst c1
  have "sample demo_env snl_posterior [2] None True None None (Some [''thin'' \<mapsto> PyInt 2]) []
       = (case sample_posterior_mcmc demo_env snl_posterior
                 (atleast_2d_float32_tensor demo_env demo_x) 2 True
                 (arg_else None (mcmc_method snl_posterior)) [''thin'' \<mapsto> PyInt 2] [] of
            (Inl e, w') \<Rightarrow> (Inl e, snl_posterior, w')
          | (Inr t, w') \<Rightarrow> (reshape_infer_last t [2], snl_posterior, w'))"
    by blast
  then have r1: "sample demo_env snl_posterior [2] None True None None
                   (Some [''thin'' \<mapsto> PyInt 2]) []
       = (Inr \<lparr>dims = [2, 2], flat = [Fin 2, NaN, Fin 2, NaN]\<rparr>, snl_posterior,
          [''_sample_posterior_mcmc''])"
    by (simp add: demo_env_def shown_def reshape_infer_last_def int64_wrap_def numel_def
        replicate_2)
  from inst c2
  have "sample demo_env snl_posterior [2] None True None None None []
       = (case sample_posterior_mcmc demo_env snl_posterior
                 (atleast_2d_float32_tensor demo_env demo_x) 2 True
                 (arg_else None (mcmc_method snl_posterior)) (mcmc_parameters snl_posterior) [] of
            (Inl e, w') \<Rightarrow> (Inl e, snl_posterior, w')
          | (Inr t, w') \<Rightarrow> (reshape_infer_last t [2], snl_posterior, w'))"
    by blast
  then have r2: "sample demo_env snl_posterior [2] None True None None None []
       = (Inr \<lparr>dims = [2, 2], flat = [Fin 10, Fin 100, Fin 10, Fin 100]\<rparr>, snl_posterior,
          [''_sample_posterior_mcmc''])"
    by (simp add: demo_env_def shown_def reshape_infer_last_def int64_wrap_def numel_def
        replicate_2 snl_posterior_def)
  from x single cons size mode c1 c2 r1 r2 show ?thesis by blast
qed

text \<open>
  C6 as stated fails: with \<open>thin = 10\<close> and \<open>warmup_steps = 100\<close> stored, a call
  that overrides only \<open>thin\<close> runs the chain without any \<open>warmup_steps\<close>; the stored
  value 100 is not retained.
\<close>

theorem mcmc_parameters_key_not_retained:
  "[''thin'' \<mapsto> PyInt 2] ''warmup_steps'' = None
   \<and> mcmc_parameters snl_posterior ''warmup_steps'' = Some (PyInt 100)
   \<and> arg_else (Some [''thin'' \<mapsto> PyInt 2]) (mcmc_parameters snl_posterior) ''warmup_steps'' = None
   \<and> sample demo_env snl_posterior [2] None True None None None []
       = (Inr \<lparr>dims = [2, 2], flat = [Fin 10, Fin 100, Fin 10, Fin 100]\<rparr>, snl_posterior,
          [''_sample_posterior_mcmc''])
   \<and> sample demo_env snl_posterior [2] None True None None (Some [''thin'' \<mapsto> PyInt 2]) []
       = (Inr \<lparr>dims = [2, 2], flat = [Fin 2, NaN, Fin 2, NaN]\<rparr>, snl_posterior,
          [''_sample_posterior_mcmc''])"
  by (simp add: sample_defs demo_env_def snl_posterior_def shown_def demo_x_def replicate_2)

text \<open>
  C7, as the code has it. Let the context pass the checks and let the product of
  \<open>sample_shape\<close> be positive and below \<open>2^63\<close>, so that it is the number of draws torch
  computes. The sampler of the active strategy is asked for exactly that product of
  draws; when it returns them as a tensor of that many rows of \<open>d\<close> entries, \<open>sample\<close>
  returns the same entries with the shape \<open>sample_shape\<close> followed by \<open>d\<close>. This holds
  for rejection sampling and for MCMC alike.
\<close>

theorem sample_reshaped_to_sample_shape:
  assumes x: "x_else_default_x env s x = Inr x0"
    and single: "ensure_single_x env (atleast_2d_float32_tensor env x0) = None"
    and cons: "ensure_x_consistent_with_default_x env s (atleast_2d_float32_tensor env x0) = None"
    and pos: "0 < prod_list shp"
    and bound: "prod_list shp < 2 ^ 63"
    and rows: "dims t = [prod_list shp, d]"
  shows "(\<not> arg_else a (sample_with_mcmc s)
          \<and> sample_posterior_within_prior env (atleast_2d_float32_tensor env x0)
                (int (prod_list shp)) sp w = (Inr (t, acc), w')
          \<longrightarrow> sample env s shp x sp a b c w = (Inr (t\<lparr>dims := shp @ [d]\<rparr>), s, w'))
       \<and> (arg_else a (sample_with_mcmc s)
          \<and> \<not> keyword_clash (arg_else c (mcmc_parameters s))
          \<and> sample_posterior_mcmc env s (atleast_2d_float32_tensor env x0)
                (int (prod_list shp)) sp (arg_else b (mcmc_method s))
                (arg_else c (mcmc_parameters s)) w = (Inr t, w')
          \<longrightarrow> sample env s shp x sp a b c w = (Inr (t\<lparr>dims := shp @ [d]\<rparr>), s, w'))"
  using sample_rejection [OF x single cons size_numel_small [OF pos bound]]
    sample_mcmc [OF x single cons size_numel_small [OF pos bound]]
    reshape_rows [OF rows pos bound]
  by simp

theorem sample_reshaped_to_sample_shape_witness:
  "x_else_default_x demo_env snpe_posterior None = Inr demo_x
   \<and> ensure_single_x demo_env (atleast_2d_float32_tensor demo_env demo_x) = None
   \<and> ensure_x_consistent_with_default_x demo_env snpe_posterior
        (atleast_2d_float32_tensor demo_env demo_x) = None
   \<and> 0 < prod_list [3, 4 :: nat]
   \<and> prod_list [3, 4 :: nat] < 2 ^ 63
   \<and> prod_list [3, 4 :: nat] = 12
   \<and> \<not> arg_else None (sample_with_mcmc snpe_posterior)
   \<and> sample demo_env snpe_posterior [3, 4] None True None None None []
       = (Inr \<lparr>dims = [3, 4, 1], flat = replicate 12 (Fin (1 / 2))\<rparr>, snpe_posterior,
          [''sample_posterior_within_prior''])
   \<and> arg_else (Some True) (sample_with_mcmc snpe_posterior)
   \<and> \<not> keyword_clash (arg_else None (mcmc_parameters snpe_posterior))
   \<and> sample demo_env snpe_posterior [3, 4] None True (Some True) None None []
       = (Inr \<lparr>dims = [3, 4, 2], flat = concat (replicate 12 [Fin 10, Fin 100])\<rparr>,
          snpe_posterior, [''_sample_posterior_mcmc''])"
proof -
  let ?rejected = "\<lparr>dims = [12, 1], flat = replicate 12 (Fin (1 / 2))\<rparr>"
  let ?chain = "\<lparr>dims = [12, 2], flat = concat (replicate 12 [Fin 10, Fin 100])\<rparr>"
  have x: "x_else_default_x demo_env snpe_posterior None = Inr demo_x"
    by (simp add: demo_env_def snpe_posterior_def)
  have single: "ensure_single_x demo_env (atleast_2d_float32_tensor demo_env demo_x) = None"
    by (simp add: demo_env_def)
  have cons: "ensure_x_consistent_with_default_x demo_env snpe_posterior
        (atleast_2d_float32_tensor demo_env demo_x) = None"
    by (simp add: demo_env_def)
  have pos: "0 < prod_list [3, 4 :: nat]"
    by simp
  have bound: "prod_list [3, 4 :: nat] < 2 ^ 63"
    by simp
  have twelve: "prod_list [3, 4 :: nat] = 12"
    by simp
  have rows1: "dims ?rejected = [prod_list [3, 4], 1]"
    by simp
  have rows2: "dims ?chain = [prod_list [3, 4], 2]"
    by simp
  have mode1: "\<not> arg_else None (sample_with_mcmc snpe_posterior)"
    by (simp add: arg_else_def snpe_posterior_def)
  have call1: "sample_posterior_within_prior demo_env (atleast_2d_float32_tensor demo_env demo_x)
                 (int (prod_list [3, 4])) True []
               = (Inr (?rejected, Fin (1 / 2)), [''sample_posterior_within_prior''])"
    by (simp add: demo_env_def)
  have mode2: "arg_else (Some True) (sample_with_mcmc snpe_posterior)"
    by (simp add: arg_else_def)
  have clash: "\<not> keyword_clash (arg_else None (mcmc_parameters snpe_posterior))"
    by (simp add: arg_else_def keyword_clash_def snpe_posterior_def)
  have call2: "sample_posterior_mcmc demo_env snpe_posterior
                 (atleast_2d_float32_tensor demo_env demo_x) (int (prod_list [3, 4])) True
                 (arg_else None (mcmc_method snpe_posterior))
                 (arg_else None (mcmc_parameters snpe_posterior)) []
               = (Inr ?chain, [''_sample_posterior_mcmc''])"
    by (simp add: demo_env_def arg_else_def snpe_posterior_def shown_def)
  from sample_reshaped_to_sample_shape [OF x single cons pos bound rows1,
         where a = None and sp = True and w = "[]" and acc = "Fin (1 / 2)"
           and w' = "[''sample_posterior_within_prior'']" and b = None and c = None]
    mode1 call1
  have r1: "sample demo_env snpe_posterior [3, 4] None True None None None []
       = (Inr \<lparr>dims = [3, 4, 1], flat = replicate 12 (Fin (1 / 2))\<rparr>, snpe_posterior,
          [''sample_posterior_within_prior''])"
    by simp
  from sample_reshaped_to_sample_shape [OF x single cons pos bound rows2,
         where a = "Some True" and sp = True and w = "[]"
           and w' = "[''_sample_posterior_mcmc'']" and b = None and c = None]
    mode2 clash call2
  have r2: "sample demo_env snpe_posterior [3, 4] None True (Some True) None None []
       = (Inr \<lparr>dims = [3, 4, 2], flat = concat (replicate 12 [Fin 10, Fin 100])\<rparr>,
          snpe_posterior, [''_sample_posterior_mcmc''])"
    by simp
  from x single cons pos bound twelve mode1 r1 mode2 clash r2 show ?thesis
    by blast
qed

text \<open>
  C7 as stated fails for a shape whose product is zero: asked for the shape
  \<open>(0,)\<close>, both strategies end in the exception of the final reshape.
\<close>

theorem sample_empty_shape_raises:
  "sample demo_env snpe_posterior [0] None True (Some False) None None []
     = (Inl (RuntimeError ''cannot reshape tensor of 0 elements: the unspecified dimension size -1 is ambiguous''),
        snpe_posterior, [''sample_posterior_within_prior''])
   \<and> sample demo_env snpe_posterior [0] None True (Some True) None None []
     = (Inl (RuntimeError ''cannot reshape tensor of 0 elements: the unspecified dimension size -1 is ambiguous''),
        snpe_posterior, [''_sample_posterior_mcmc''])"
  by (simp add: sample_defs demo_env_def snpe_posterior_def)

text \<open>
  C8. The code contradicts the claim. A posterior of the family \<open>snl\<close> in the mode
  MCMC, for which \<open>set_sample_with_mcmc(False)\<close> raises, is sampled with the override
  \<open>sample_with_mcmc=False\<close>: the call is not rejected, the rejection sampler runs and
  its draws are returned.
\<close>

theorem sample_override_reaches_rejection_sampling:
  "method_family snl_posterior = ''snl''
   \<and> sample_with_mcmc snl_posterior
   \<and> fst (set_sample_with_mcmc snl_posterior False)
       = Inl (ValueError ''snl cannot use MCMC for sampling.'')
   \<and> sample demo_env snl_posterior [2] None True (Some False) None None []
       = (Inr \<lparr>dims = [2, 1], flat = [Fin (1 / 2), Fin (1 / 2)]\<rparr>, snl_posterior,
          [''sample_posterior_within_prior''])"
  by (simp add: sample_defs demo_env_def snl_posterior_def demo_x_def
      set_sample_with_mcmc_def replicate_2)

end
